theory Spec2Isabelle
  imports Complex_Main "HOL-Library.Sublist"
begin

section \<open>Data model of \<^verbatim>\<open>app.py\<close>\<close>

text \<open>
  A Python \<^verbatim>\<open>float\<close> is either a finite number or one of the three non-finite values.
  A finite value is the real number it stands for. Comparisons are exact; the result of an
  addition or a division is rounded to the binary64 format by \<open>fl\<close>, defined below.
\<close>

datatype pyfloat = Fin real | PInf | NInf | NaN

text \<open>\<^verbatim>\<open>a <= b\<close> and \<^verbatim>\<open>a < b\<close> on floats: every comparison with NaN is false.\<close>

fun fle :: "pyfloat \<Rightarrow> pyfloat \<Rightarrow> bool" where
  "fle NaN _ = False"
| "fle _ NaN = False"
| "fle NInf _ = True"
| "fle _ PInf = True"
| "fle (Fin a) (Fin b) = (a \<le> b)"
| "fle PInf _ = False"
| "fle (Fin a) NInf = False"

fun flt :: "pyfloat \<Rightarrow> pyfloat \<Rightarrow> bool" where
  "flt NaN _ = False"
| "flt _ NaN = False"
| "flt PInf _ = False"
| "flt _ NInf = False"
| "flt (Fin a) (Fin b) = (a < b)"
| "flt NInf _ = True"
| "flt (Fin a) PInf = True"

text \<open>\<^verbatim>\<open>np.isfinite\<close>.\<close>

fun isfinite :: "pyfloat \<Rightarrow> bool" where
  "isfinite (Fin _) = True"
| "isfinite _ = False"

text \<open>The enumeration \<^verbatim>\<open>VoiceType\<close> and the \<^verbatim>\<open>.value\<close> of each member.\<close>

datatype VoiceType =
  SOPRANO | MEZZO_SOPRANO | CONTRALTO | COUNTER_TENOR | TENOR | BARITONE | BASS | UNKNOWN

fun VoiceType_value :: "VoiceType \<Rightarrow> string" where
  "VoiceType_value SOPRANO = ''Soprano''"
| "VoiceType_value MEZZO_SOPRANO = ''Mezzo-soprano''"
| "VoiceType_value CONTRALTO = ''Kontralto''"
| "VoiceType_value COUNTER_TENOR = ''Tiz Erkek (Countertenor)''"
| "VoiceType_value TENOR = ''Tenor''"
| "VoiceType_value BARITONE = ''Bariton''"
| "VoiceType_value BASS = ''Bas''"
| "VoiceType_value UNKNOWN = ''Belirsiz''"

section \<open>Binary64 arithmetic\<close>

text \<open>Rounding to the nearest integer, a tie going to the even one.\<close>

definition round_half_even :: "real \<Rightarrow> int" where
  "round_half_even x =
     (let f = \<lfloor>x\<rfloor>; d = x - of_int f in
      if d < 1 / 2 then f else if 1 / 2 < d then f + 1 else if even f then f else f + 1)"

text \<open>The position of the leading bit of an integer: \<open>ilog2 n = k\<close> for \<open>2^k \<le> n < 2^(k+1)\<close>.\<close>

function ilog2 :: "int \<Rightarrow> int" where
  "ilog2 n = (if n < 2 then 0 else 1 + ilog2 (n div 2))"
  by pat_completeness auto
termination
  by (relation "measure nat") auto

definition pow2 :: "int \<Rightarrow> real" where
  "pow2 e = (if 0 \<le> e then 2 ^ nat e else 1 / 2 ^ nat (- e))"

text \<open>The binary exponent of a non-zero real: \<open>2^e \<le> |x| < 2^(e+1)\<close>.\<close>

definition exponent :: "real \<Rightarrow> int" where
  "exponent x =
     (let a = \<bar>x\<bar> in
      if 1 \<le> a then ilog2 \<lfloor>a\<rfloor>
      else
        let k = ilog2 \<lfloor>1 / a\<rfloor> in
        if a * pow2 k = 1 then - k else - k - 1)"

text \<open>
  The binary64 value of a real, as IEEE 754 rounds it (to nearest, ties to even): 53
  significant bits, the exponent not below -1022 (below it the spacing stays that of
  the subnormal numbers), and infinity once the rounded value reaches \<open>2^1024\<close>.
\<close>

definition fl :: "real \<Rightarrow> pyfloat" where
  "fl x =
     (if x = 0 then Fin 0
      else
        let e = max (exponent x) (- 1022);
            ulp = pow2 (e - 52);
            r = of_int (round_half_even (x / ulp)) * ulp
        in if 2 ^ 1024 \<le> r then PInf else if r \<le> - (2 ^ 1024) then NInf else Fin r)"

text \<open>A real is a binary64 number when rounding leaves it as it is.\<close>

definition is_binary64 :: "real \<Rightarrow> bool" where
  "is_binary64 x = (fl x = Fin x)"

text \<open>
  Float addition, and the division of a float by a positive count (numpy's
  \<^verbatim>\<open>ret / rcount\<close>).
\<close>

fun fadd :: "pyfloat \<Rightarrow> pyfloat \<Rightarrow> pyfloat" where
  "fadd NaN _ = NaN"
| "fadd _ NaN = NaN"
| "fadd (Fin a) (Fin b) = fl (a + b)"
| "fadd PInf NInf = NaN"
| "fadd NInf PInf = NaN"
| "fadd PInf _ = PInf"
| "fadd _ PInf = PInf"
| "fadd NInf _ = NInf"
| "fadd _ NInf = NInf"

fun fdiv_count :: "pyfloat \<Rightarrow> nat \<Rightarrow> pyfloat" where
  "fdiv_count (Fin a) n = fl (a / real n)"
| "fdiv_count p n = p"

section \<open>Strings\<close>

text \<open>
  \<^verbatim>\<open>str.lower\<close>: the letters A to Z are mapped to a to z and every other character is
  kept. Python also lowers letters outside ASCII, but none of them to one of the letters
  of \<^verbatim>\<open>female\<close>, so the two equality tests of the classifier read the same here.
\<close>

definition lower_char :: "char \<Rightarrow> char" where
  "lower_char c =
     (case map_of (zip ''ABCDEFGHIJKLMNOPQRSTUVWXYZ'' ''abcdefghijklmnopqrstuvwxyz'') c of
        Some d \<Rightarrow> d
      | None \<Rightarrow> c)"

definition lower :: "string \<Rightarrow> string" where
  "lower s = map lower_char s"

section \<open>The voice classifier\<close>

text \<open>\<^verbatim>\<open>classify_voice\<close>, lines 123 to 148, branch by branch.\<close>

definition classify_voice :: "pyfloat \<Rightarrow> string \<Rightarrow> VoiceType" where
  "classify_voice avg_pitch gender =
     (let gender = lower gender in
      if gender = ''female'' then
        (if fle (Fin 450) avg_pitch \<and> fle avg_pitch (Fin 1100) then SOPRANO
         else if fle (Fin 350) avg_pitch \<and> flt avg_pitch (Fin 450) then MEZZO_SOPRANO
         else if fle (Fin 165) avg_pitch \<and> flt avg_pitch (Fin 350) then CONTRALTO
         else UNKNOWN)
      else if gender = ''male'' then
        (if fle (Fin 450) avg_pitch \<and> fle avg_pitch (Fin 700) then COUNTER_TENOR
         else if fle (Fin 165) avg_pitch \<and> flt avg_pitch (Fin 255) then TENOR
         else if fle (Fin 110) avg_pitch \<and> flt avg_pitch (Fin 165) then BARITONE
         else if fle (Fin 80) avg_pitch \<and> flt avg_pitch (Fin 110) then BASS
         else UNKNOWN)
      else UNKNOWN)"

text \<open>
  Case-insensitive equality of two strings, stated without \<^const>\<open>lower\<close>: the strings
  have the same length and agree position by position up to the case of an ASCII letter.
\<close>

definition same_letter :: "char \<Rightarrow> char \<Rightarrow> bool" where
  "same_letter c d =
     (c = d
      \<or> (c, d) \<in> set (zip ''ABCDEFGHIJKLMNOPQRSTUVWXYZ'' ''abcdefghijklmnopqrstuvwxyz'')
      \<or> (d, c) \<in> set (zip ''ABCDEFGHIJKLMNOPQRSTUVWXYZ'' ''abcdefghijklmnopqrstuvwxyz''))"

definition caseless_eq :: "string \<Rightarrow> string \<Rightarrow> bool" where
  "caseless_eq s t = list_all2 same_letter s t"

text \<open>
  The classifier in the words of the specification. The gender input is one of female
  and male, read without regard to case, and anything else is "other". Per gender the
  table is an ordered list of bands, each closed (\<open>[lo, hi]\<close>) or half-open
  (\<open>[lo, hi)\<close>); the bands are evaluated top to bottom, the first band containing the
  pitch gives the category, and no match gives Unknown.
\<close>

datatype gender_spec = Female | Male | Other

definition read_gender_spec :: "string \<Rightarrow> gender_spec" where
  "read_gender_spec g =
     (if caseless_eq g ''female'' then Female
      else if caseless_eq g ''male'' then Male
      else Other)"

datatype band = Closed real real | HalfOpen real real

fun in_band :: "real \<Rightarrow> band \<Rightarrow> bool" where
  "in_band p (Closed lo hi) = (lo \<le> p \<and> p \<le> hi)"
| "in_band p (HalfOpen lo hi) = (lo \<le> p \<and> p < hi)"

fun band_table_spec :: "gender_spec \<Rightarrow> (band \<times> VoiceType) list" where
  "band_table_spec Female =
     [(Closed 450 1100, SOPRANO), (HalfOpen 350 450, MEZZO_SOPRANO),
      (HalfOpen 165 350, CONTRALTO)]"
| "band_table_spec Male =
     [(Closed 450 700, COUNTER_TENOR), (HalfOpen 165 255, TENOR),
      (HalfOpen 110 165, BARITONE), (HalfOpen 80 110, BASS)]"
| "band_table_spec Other = []"

fun first_match_spec :: "real \<Rightarrow> (band \<times> VoiceType) list \<Rightarrow> VoiceType" where
  "first_match_spec p [] = UNKNOWN"
| "first_match_spec p ((b, c) # rest) = (if in_band p b then c else first_match_spec p rest)"

definition classify_spec :: "real \<Rightarrow> string \<Rightarrow> VoiceType" where
  "classify_spec p g = first_match_spec p (band_table_spec (read_gender_spec g))"

section \<open>Pitch analysis\<close>

text \<open>
  \<^verbatim>\<open>np.median\<close> on a one-dimensional float64 array without NaN, as numpy computes it: the
  array is partitioned so that the middle positions hold what a sort would put there
  (modelled by sorting), the middle slice is one element for an odd size and two for an
  even size, and the result is \<^verbatim>\<open>np.mean\<close> of that slice: the float sum of its elements
  divided by their number. The slices summed here have at most two elements, so the
  order of the additions does not matter. The median and the mean of an empty array are
  NaN.
\<close>

fun fsum :: "real list \<Rightarrow> pyfloat" where
  "fsum [] = Fin 0"
| "fsum (x # xs) = foldl (\<lambda>s v. fadd s (Fin v)) (Fin x) xs"

definition mean :: "real list \<Rightarrow> pyfloat" where
  "mean xs = (if xs = [] then NaN else fdiv_count (fsum xs) (length xs))"

definition np_median :: "real list \<Rightarrow> pyfloat" where
  "np_median a =
     (let part = sort a; index = length part div 2 in
      if length part = 0 then NaN
      else if length part mod 2 = 1 then mean (take 1 (drop index part))
      else mean (take 2 (drop (index - 1) part)))"

text \<open>
  The median in the words of the specification: the middle value of the sorted sequence
  for an odd count, the average of the two central values for an even count.
\<close>

definition median_spec :: "real list \<Rightarrow> real" where
  "median_spec xs =
     (let s = sort xs; n = length s in
      if odd n then s ! (n div 2) else (s ! (n div 2 - 1) + s ! (n div 2)) / 2)"

text \<open>
  The same with the average taken in binary64 arithmetic: the sum of the two central
  values rounded to binary64, then halved.
\<close>

definition favg :: "real \<Rightarrow> real \<Rightarrow> pyfloat" where
  "favg a b = fdiv_count (fadd (Fin a) (Fin b)) 2"

definition median_binary64 :: "real list \<Rightarrow> pyfloat" where
  "median_binary64 xs =
     (let s = sort xs; n = length s in
      if odd n then Fin (s ! (n div 2)) else favg (s ! (n div 2 - 1)) (s ! (n div 2)))"

text \<open>
  \<^verbatim>\<open>pitch[np.isfinite(pitch)]\<close>: the finite frames, in order. From here on the frames are
  plain reals.
\<close>

fun finite_values :: "pyfloat list \<Rightarrow> real list" where
  "finite_values [] = []"
| "finite_values (Fin x # ps) = x # finite_values ps"
| "finite_values (_ # ps) = finite_values ps"

text \<open>The two filters of lines 115 and 116, one after the other.\<close>

definition voiced :: "pyfloat list \<Rightarrow> real list" where
  "voiced pitch = filter (\<lambda>x. 0 < x) (finite_values pitch)"

text \<open>
  The failures of the analysis. The two \<^verbatim>\<open>ValueError\<close>s of \<^verbatim>\<open>analyze_pitch\<close> are told
  apart by their message (too short; no pitch found); the specification calls them
  InsufficientAudio and NoPitchDetected. \<^verbatim>\<open>len(y) / sr\<close> raises \<^verbatim>\<open>ZeroDivisionError\<close>
  for a zero sample rate.
\<close>

datatype error = InsufficientAudio | NoPitchDetected | ZeroDivisionError

text \<open>
  \<^verbatim>\<open>analyze_pitch\<close>, lines 110 to 121. The estimator \<^verbatim>\<open>librosa.yin\<close> is a library
  function and is a parameter here, called with the source's search band 50 to 1000 Hz;
  it returns one frame per analysis window.
\<close>

type_synonym estimator = "pyfloat list \<Rightarrow> nat \<Rightarrow> nat \<Rightarrow> int \<Rightarrow> pyfloat list"

definition analyze_pitch :: "estimator \<Rightarrow> pyfloat list \<Rightarrow> int \<Rightarrow> error + (pyfloat \<times> real list)" where
  "analyze_pitch yin y sr =
     (if sr = 0 then Inl ZeroDivisionError
      else if real (length y) / real_of_int sr < 1 / 2 then Inl InsufficientAudio
      else
        let pitch = voiced (yin y 50 1000 sr) in
        if length pitch = 0 then Inl NoPitchDetected
        else Inr (np_median pitch, pitch))"


section \<open>Result composition\<close>

text \<open>
  \<^verbatim>\<open>round(x, 2)\<close>: a finite value is rounded to the nearest multiple of 1/100, a tie
  going to the even multiple; a non-finite value is returned as it is. The result is
  the two-decimal number itself, which is what the JSON response prints for the float.
\<close>

definition py_round2 :: "pyfloat \<Rightarrow> pyfloat" where
  "py_round2 p = (case p of Fin x \<Rightarrow> Fin (of_int (round_half_even (x * 100)) / 100) | _ \<Rightarrow> p)"

record AnalysisResult =
  voice_type :: VoiceType
  average_pitch :: pyfloat
  processing_time :: string
  message :: "string option"

text \<open>The JSON object of a successful request.\<close>

record success_json =
  json_status :: string
  json_voice_type :: string
  json_average_pitch :: pyfloat
  json_pitch_series :: "real list"
  json_processing_time :: string

text \<open>
  \<^verbatim>\<open>analyze\<close>, lines 178 to 196: the part of the request handler after the upload has been
  decoded. The decoded buffer \<open>y\<close> and its sample rate \<open>sr\<close> are what \<^verbatim>\<open>librosa.load\<close>
  returned, and \<open>elapsed\<close> is the text of \<^verbatim>\<open>datetime.now() - start_time\<close>, read from the
  clock. An exception of \<^verbatim>\<open>analyze_pitch\<close> leaves the \<^verbatim>\<open>try\<close> block before any result is
  built.
\<close>

definition analyze :: "estimator \<Rightarrow> pyfloat list \<Rightarrow> int \<Rightarrow> string \<Rightarrow> string \<Rightarrow> error + success_json" where
  "analyze yin y sr gender elapsed =
     (case analyze_pitch yin y sr of
        Inl e \<Rightarrow> Inl e
      | Inr (avg_pitch, pitch_series) \<Rightarrow>
          let result = \<lparr>voice_type = classify_voice avg_pitch gender,
                        average_pitch = py_round2 avg_pitch,
                        processing_time = elapsed, message = None\<rparr>
          in Inr \<lparr>json_status = ''success'',
                  json_voice_type = VoiceType_value (voice_type result),
                  json_average_pitch = average_pitch result,
                  json_pitch_series = pitch_series,
                  json_processing_time = processing_time result\<rparr>)"

section \<open>Properties of the classifier\<close>

lemma lower_literals:
  "lower ''female'' = ''female''"
  "lower ''male'' = ''male''"
  "lower ''OTHER_STRING'' = ''other_string''"
  by (simp_all add: lower_def lower_char_def)

lemma lower_char_letters:
  "lower_char c = CHR ''f'' \<longleftrightarrow> same_letter c (CHR ''f'')"
  "lower_char c = CHR ''e'' \<longleftrightarrow> same_letter c (CHR ''e'')"
  "lower_char c = CHR ''m'' \<longleftrightarrow> same_letter c (CHR ''m'')"
  "lower_char c = CHR ''a'' \<longleftrightarrow> same_letter c (CHR ''a'')"
  "lower_char c = CHR ''l'' \<longleftrightarrow> same_letter c (CHR ''l'')"
  unfolding lower_char_def same_letter_def by (simp_all split: if_splits)

lemma lower_female: "lower g = ''female'' \<longleftrightarrow> caseless_eq g ''female''"
  unfolding lower_def caseless_eq_def
  by (simp add: map_eq_Cons_conv list_all2_Cons2 lower_char_letters)

lemma lower_male: "lower g = ''male'' \<longleftrightarrow> caseless_eq g ''male''"
  unfolding lower_def caseless_eq_def
  by (simp add: map_eq_Cons_conv list_all2_Cons2 lower_char_letters)

text \<open>
  C1. For every pitch and gender string the classifier returns what the ordered band
  table of the specification gives, bands read top to bottom and the first match winning:
  on a finite pitch it agrees with \<^const>\<open>classify_spec\<close>, whose table is the one of the
  specification, and a pitch that is not a finite number lies in no band and gives
  Unknown. In particular 450 with female gives Soprano and 300 with male gives Unknown.
\<close>

theorem classify_voice_band_table:
  "classify_voice (Fin p) g = classify_spec p g
   \<and> classify_voice NaN g = UNKNOWN
   \<and> classify_voice PInf g = UNKNOWN
   \<and> classify_voice NInf g = UNKNOWN
   \<and> classify_voice (Fin 450) ''female'' = SOPRANO
   \<and> classify_voice (Fin 300) ''male'' = UNKNOWN"
proof -
  have "classify_voice (Fin p) g = classify_spec p g"
    by (simp add: classify_voice_def classify_spec_def read_gender_spec_def
        flip: lower_female lower_male)
  moreover have "classify_voice NaN g = UNKNOWN" "classify_voice PInf g = UNKNOWN"
    "classify_voice NInf g = UNKNOWN"
    by (simp_all add: classify_voice_def Let_def)
  moreover have "classify_voice (Fin 450) ''female'' = SOPRANO"
    "classify_voice (Fin 300) ''male'' = UNKNOWN"
    by (simp_all add: classify_voice_def lower_literals)
  ultimately show ?thesis by simp
qed

text \<open>
  C5. The gender is matched without regard to case: a string that equals \<^verbatim>\<open>female\<close> up
  to the case of its letters is classified as \<^verbatim>\<open>female\<close> is, and likewise for
  \<^verbatim>\<open>male\<close>. Every other string gives Unknown, for every pitch; \<^verbatim>\<open>OTHER_STRING\<close> at
  200 Hz does. The classifier has no failing branch: it returns a category on every
  input.
\<close>

theorem classify_voice_gender:
  "(caseless_eq g ''female'' \<longrightarrow> classify_voice p g = classify_voice p ''female'')
   \<and> (caseless_eq g ''male'' \<longrightarrow> classify_voice p g = classify_voice p ''male'')
   \<and> (\<not> caseless_eq g ''female'' \<and> \<not> caseless_eq g ''male'' \<longrightarrow> classify_voice p g = UNKNOWN)
   \<and> classify_voice (Fin 200) ''OTHER_STRING'' = UNKNOWN
   \<and> (\<exists>v. classify_voice p g = v)"
proof -
  have "classify_voice p g = classify_voice p ''female''" if "caseless_eq g ''female''"
    using that lower_literals by (simp add: classify_voice_def flip: lower_female)
  moreover have "classify_voice p g = classify_voice p ''male''" if "caseless_eq g ''male''"
    using that lower_literals by (simp add: classify_voice_def flip: lower_male)
  moreover have "classify_voice p g = UNKNOWN"
    if "\<not> caseless_eq g ''female''" "\<not> caseless_eq g ''male''"
    using that by (simp add: classify_voice_def flip: lower_female lower_male)
  moreover have "classify_voice (Fin 200) ''OTHER_STRING'' = UNKNOWN"
    using lower_literals by (simp add: classify_voice_def)
  ultimately show ?thesis by blast
qed

theorem classify_voice_gender_witness:
  "caseless_eq ''FeMale'' ''female'' \<and> classify_voice (Fin 500) ''FeMale'' = SOPRANO
   \<and> caseless_eq ''MALE'' ''male'' \<and> classify_voice (Fin 100) ''MALE'' = BASS
   \<and> \<not> caseless_eq ''other'' ''female'' \<and> \<not> caseless_eq ''other'' ''male''
   \<and> classify_voice (Fin 100) ''other'' = UNKNOWN"
proof -
  have a: "caseless_eq ''FeMale'' ''female''" "caseless_eq ''MALE'' ''male''"
    "\<not> caseless_eq ''other'' ''female''" "\<not> caseless_eq ''other'' ''male''"
    by (simp_all add: caseless_eq_def same_letter_def)
  have b: "classify_voice (Fin 500) ''female'' = SOPRANO"
    "classify_voice (Fin 100) ''male'' = BASS"
    by (simp_all add: classify_voice_def lower_literals)
  show ?thesis
    using a b classify_voice_gender [of "''FeMale''" "Fin 500"]
      classify_voice_gender [of "''MALE''" "Fin 100"]
      classify_voice_gender [of "''other''" "Fin 100"]
    by simp
qed

section \<open>Properties of the pitch analysis\<close>

lemmas fl_simps = fl_def exponent_def pow2_def round_half_even_def Let_def

lemma slice_one: "i < length s \<Longrightarrow> take 1 (drop i s) = [s ! i]"
  by (simp flip: Cons_nth_drop_Suc)

lemma slice_two: "Suc i < length s \<Longrightarrow> take 2 (drop i s) = [s ! i, s ! Suc i]"
proof -
  assume a: "Suc i < length s"
  then have "drop i s = s ! i # s ! Suc i # drop (Suc (Suc i)) s"
    by (simp add: Cons_nth_drop_Suc Suc_lessD)
  then show ?thesis by (simp add: numeral_2_eq_2)
qed

lemma mean_single: "is_binary64 a \<Longrightarrow> mean [a] = Fin a"
  by (simp add: mean_def is_binary64_def)

lemma mean_pair: "mean [a, b] = favg a b"
  by (simp add: mean_def favg_def numeral_2_eq_2)

lemma np_median_binary64:
  assumes b: "\<forall>x \<in> set xs. is_binary64 x" and ne: "xs \<noteq> []"
  shows "np_median xs = median_binary64 xs"
proof -
  let ?s = "sort xs"
  let ?n = "length ?s"
  have pos: "0 < ?n" using ne by simp
  show ?thesis
  proof (cases "odd ?n")
    case True
    then have m: "?n mod 2 = 1" by presburger
    have i: "?n div 2 < ?n" using pos by simp
    then have "?s ! (?n div 2) \<in> set ?s" by (rule nth_mem)
    then have "is_binary64 (?s ! (?n div 2))" using b by simp
    then have "mean [?s ! (?n div 2)] = Fin (?s ! (?n div 2))" by (rule mean_single)
    moreover have "take 1 (drop (?n div 2) ?s) = [?s ! (?n div 2)]" using i by (rule slice_one)
    ultimately show ?thesis
      using True m pos
      by (simp add: np_median_def median_binary64_def Let_def del: length_sort)
  next
    case False
    then have m: "?n mod 2 \<noteq> 1" by presburger
    from False pos have "2 \<le> ?n" by presburger
    then have i: "Suc (?n div 2 - 1) = ?n div 2" "Suc (?n div 2 - 1) < ?n" by simp_all
    have "take 2 (drop (?n div 2 - 1) ?s) = [?s ! (?n div 2 - 1), ?s ! Suc (?n div 2 - 1)]"
      using i(2) by (rule slice_two)
    then have "take 2 (drop (?n div 2 - 1) ?s) = [?s ! (?n div 2 - 1), ?s ! (?n div 2)]"
      using i(1) by simp
    then show ?thesis
      using False m pos
      by (simp add: np_median_def median_binary64_def Let_def mean_pair del: length_sort)
  qed
qed

lemma favg_exact:
  "is_binary64 (a + b) \<Longrightarrow> is_binary64 ((a + b) / 2) \<Longrightarrow> favg a b = Fin ((a + b) / 2)"
  by (simp add: favg_def is_binary64_def)

lemma analyze_pitch_Inr:
  "analyze_pitch yin y sr = Inr (avg, series) \<Longrightarrow>
     series = voiced (yin y 50 1000 sr) \<and> series \<noteq> [] \<and> avg = np_median series"
  by (auto simp add: analyze_pitch_def Let_def split: if_splits)

text \<open>
  C2 as stated fails for an even count: the frames \<open>450 - 2^-44\<close> and 450 are both
  binary64 numbers, the average of the two is \<open>450 - 2^-45\<close>, and the median computed
  is 450.
\<close>

theorem median_is_not_exact_average:
  "is_binary64 (450 - 1 / 2 ^ 44) \<and> is_binary64 450
   \<and> np_median [450 - 1 / 2 ^ 44, 450] = Fin 450
   \<and> median_spec [450 - 1 / 2 ^ 44, 450] = 450 - 1 / 2 ^ 45
   \<and> Fin (median_spec [450 - 1 / 2 ^ 44, 450]) \<noteq> np_median [450 - 1 / 2 ^ 44, 450]"
  by (simp add: is_binary64_def np_median_def mean_def median_spec_def fl_simps)

text \<open>
  C2, amended. For every non-empty series of binary64 numbers the median computed is the
  middle element of the sorted series for an odd count and, for an even count, the
  average of the two central elements as binary64 arithmetic gives it: their sum rounded
  to binary64, then halved. This is the exact average whenever the sum and its half are
  binary64 numbers. A successful analysis returns this median of its series, which is not
  empty; the series 100, 200, 300, 400 yields 250.
\<close>

theorem representative_pitch_is_binary64_median:
  "((\<forall>x \<in> set xs. is_binary64 x) \<and> xs \<noteq> [] \<longrightarrow> np_median xs = median_binary64 xs)
   \<and> (analyze_pitch yin y sr = Inr (avg, series) \<and> (\<forall>x \<in> set series. is_binary64 x) \<longrightarrow>
        series \<noteq> [] \<and> avg = median_binary64 series)
   \<and> (is_binary64 (a + b) \<and> is_binary64 ((a + b) / 2) \<longrightarrow> favg a b = Fin ((a + b) / 2))
   \<and> np_median [100, 200, 300, 400] = Fin 250"
proof -
  have "series \<noteq> [] \<and> avg = median_binary64 series"
    if "analyze_pitch yin y sr = Inr (avg, series)" "\<forall>x \<in> set series. is_binary64 x"
    using analyze_pitch_Inr [OF that(1)] np_median_binary64 [OF that(2)] by blast
  moreover have "np_median [100, 200, 300, 400] = Fin 250"
    by (simp add: np_median_def mean_def fl_simps)
  ultimately show ?thesis using np_median_binary64 favg_exact by blast
qed

theorem representative_pitch_is_binary64_median_witness:
  "list_all is_binary64 [400, 100, 300, 200] \<and> [400, 100, 300, 200 :: real] \<noteq> []
   \<and> np_median [400, 100, 300, 200] = Fin 250
   \<and> median_binary64 [400, 100, 300, 200] = Fin 250
   \<and> analyze_pitch (\<lambda>_ _ _ _. [Fin 300, Fin 100, Fin (441 / 2)]) [Fin 0, Fin 0] 2
       = Inr (Fin (441 / 2), [300, 100, 441 / 2])
   \<and> list_all is_binary64 [300, 100, 441 / 2]
   \<and> median_binary64 [300, 100, 441 / 2] = Fin (441 / 2)
   \<and> is_binary64 (200 + 300) \<and> is_binary64 ((200 + 300) / 2) \<and> favg 200 300 = Fin 250"
proof -
  have b: "is_binary64 400" "is_binary64 100" "is_binary64 300" "is_binary64 200"
    "is_binary64 (441 / 2)" "is_binary64 500" "is_binary64 250"
    by (simp_all add: is_binary64_def fl_simps)
  have a: "analyze_pitch (\<lambda>_ _ _ _. [Fin 300, Fin 100, Fin (441 / 2)]) [Fin 0, Fin 0] 2
             = Inr (Fin (441 / 2), [300, 100, 441 / 2])"
    by (simp add: analyze_pitch_def voiced_def np_median_def mean_def fl_simps)
  show ?thesis
    using a b
      representative_pitch_is_binary64_median [of "[400, 100, 300, 200]"
        "\<lambda>_ _ _ _. [Fin 300, Fin 100, Fin (441 / 2)]" "[Fin 0, Fin 0]" 2
        "Fin (441 / 2)" "[300, 100, 441 / 2]" 200 300]
    by (simp add: median_binary64_def favg_def fl_simps)
qed

lemma voiced_filter:
  "map Fin (voiced fs) = filter (\<lambda>p. isfinite p \<and> flt (Fin 0) p) fs"
  unfolding voiced_def by (induction fs rule: finite_values.induct) simp_all







text \<open>
  C3. For a non-zero sample rate, the analysis fails with InsufficientAudio exactly when
  the duration \<open>len(y) / sr\<close> is below half a second, whatever the samples and whatever
  the estimator would return; for a duration of at least half a second this error is
  never raised.
\<close>

theorem insufficient_audio:
  "sr \<noteq> 0 \<Longrightarrow>
     (analyze_pitch yin y sr = Inl InsufficientAudio)
       = (real (length y) / real_of_int sr < 1 / 2)"
  by (simp add: analyze_pitch_def Let_def)

theorem insufficient_audio_witness:
  "(44100::int) \<noteq> 0
   \<and> analyze_pitch (\<lambda>_ _ _ _. [Fin 200]) (replicate 22049 (Fin 1)) 44100
       = Inl InsufficientAudio
   \<and> analyze_pitch (\<lambda>_ _ _ _. [Fin 200]) (replicate 22050 (Fin 1)) 44100
       \<noteq> Inl InsufficientAudio"
  using insufficient_audio [of 44100 "\<lambda>_ _ _ _. [Fin 200]" "replicate 22049 (Fin 1)"]
    insufficient_audio [of 44100 "\<lambda>_ _ _ _. [Fin 200]" "replicate 22050 (Fin 1)"]
  by simp




text \<open>
  The failing side of C4 is met by an estimator that marks a frame without pitch, as
  the estimator of the specification does with its sentinel; here every frame is NaN.
\<close>

lemma sentinel_frames_fail:
  "analyze_pitch (\<lambda>_ _ _ _. [NaN, NaN, NaN]) [Fin 0, Fin 0] 2 = Inl NoPitchDetected"
  by (simp add: analyze_pitch_def voiced_def)

text \<open>
  C6. The voiced series is exactly the frames of the estimator that are finite and
  strictly positive, in the order of the frames: it is what one filter with both tests
  keeps, every element of it is a positive real, and it is a subsequence of the frames.
  The series returned by a successful analysis is this series.
\<close>

theorem voiced_series:
  "map Fin (voiced fs) = filter (\<lambda>p. isfinite p \<and> flt (Fin 0) p) fs
   \<and> (\<forall>x \<in> set (voiced fs). 0 < x)
   \<and> (\<forall>p \<in> set (map Fin (voiced fs)). isfinite p \<and> flt (Fin 0) p)
   \<and> subseq (map Fin (voiced fs)) fs
   \<and> (analyze_pitch yin y sr = Inr (avg, series) \<longrightarrow>
        map Fin series = filter (\<lambda>p. isfinite p \<and> flt (Fin 0) p) (yin y 50 1000 sr))"
proof -
  have 1: "map Fin (voiced fs) = filter (\<lambda>p. isfinite p \<and> flt (Fin 0) p) fs"
    by (rule voiced_filter)
  have 2: "\<forall>x \<in> set (voiced fs). 0 < x"
    by (simp add: voiced_def)
  have 3: "\<forall>p \<in> set (map Fin (voiced fs)). isfinite p \<and> flt (Fin 0) p"
    unfolding 1 by simp
  have 4: "subseq (map Fin (voiced fs)) fs"
    unfolding 1 by simp
  have 5: "map Fin series = filter (\<lambda>p. isfinite p \<and> flt (Fin 0) p) (yin y 50 1000 sr)"
    if "analyze_pitch yin y sr = Inr (avg, series)"
    using analyze_pitch_Inr [OF that] voiced_filter by simp
  show ?thesis using 1 2 3 4 5 by blast
qed

theorem voiced_series_witness:
  "voiced [Fin 100, NaN, Fin 0, Fin (- 5), PInf, Fin 200, Fin 50] = [100, 200, 50]
   \<and> list_all (\<lambda>x. 0 < x) [100, 200, 50 :: real]
   \<and> subseq [Fin 100, Fin 200, Fin 50] [Fin 100, NaN, Fin 0, Fin (- 5), PInf, Fin 200, Fin 50]
   \<and> analyze_pitch (\<lambda>_ _ _ _. [Fin 100, NaN, Fin 0, Fin (- 5), PInf, Fin 200, Fin 50])
        [Fin 0] 1 = Inr (Fin 100, [100, 200, 50])"
proof -
  have v: "voiced [Fin 100, NaN, Fin 0, Fin (- 5), PInf, Fin 200, Fin 50] = [100, 200, 50]"
    by (simp add: voiced_def)
  have a: "analyze_pitch (\<lambda>_ _ _ _. [Fin 100, NaN, Fin 0, Fin (- 5), PInf, Fin 200, Fin 50])
             [Fin 0] 1 = Inr (Fin 100, [100, 200, 50])"
    by (simp add: analyze_pitch_def v np_median_def mean_def fl_simps)
  show ?thesis
    using v a
      voiced_series [of "[Fin 100, NaN, Fin 0, Fin (- 5), PInf, Fin 200, Fin 50]"
        "\<lambda>_ _ _ _. [Fin 100, NaN, Fin 0, Fin (- 5), PInf, Fin 200, Fin 50]" "[Fin 0]" 1
        "Fin 100" "[100, 200, 50]"]
    by simp
qed

section \<open>Properties of the composed result\<close>

lemma round_half_even_near: "\<bar>of_int (round_half_even x) - x\<bar> \<le> 1 / 2"
proof -
  have "of_int \<lfloor>x\<rfloor> \<le> x" "x < of_int \<lfloor>x\<rfloor> + 1" by linarith+
  then show ?thesis
    by (auto simp add: round_half_even_def Let_def)
qed

lemma py_round2_Fin:
  "\<exists>k. py_round2 (Fin m) = Fin (of_int k / 100) \<and> \<bar>of_int k / 100 - m\<bar> \<le> 1 / 200"
proof -
  let ?k = "round_half_even (m * 100)"
  have "\<bar>of_int ?k - m * 100\<bar> \<le> 1 / 2" by (rule round_half_even_near)
  then have "\<bar>of_int ?k / 100 - m\<bar> \<le> 1 / 200" by (simp add: field_simps abs_le_iff)
  then show ?thesis by (auto simp add: py_round2_def)
qed

lemma analyze_Inl: "analyze_pitch yin y sr = Inl e \<Longrightarrow> analyze yin y sr g t = Inl e"
  by (simp add: analyze_def)

lemma analyze_Inr:
  "analyze_pitch yin y sr = Inr (avg, series) \<Longrightarrow>
     analyze yin y sr g t =
       Inr \<lparr>json_status = ''success'',
            json_voice_type = VoiceType_value (classify_voice avg g),
            json_average_pitch = py_round2 avg,
            json_pitch_series = series,
            json_processing_time = t\<rparr>"
  by (simp add: analyze_def)

lemma analyze_success:
  "analyze yin y sr g t = Inr r \<Longrightarrow> \<exists>avg series. analyze_pitch yin y sr = Inr (avg, series)"
  by (cases "analyze_pitch yin y sr") (auto simp add: analyze_def)

text \<open>
  C7. A successful request comes from a successful pitch analysis, and then the result
  holds the voiced series itself, in its order; the representative pitch, which is the
  median computed from that very series (its binary64 median when the frames are
  binary64 numbers), rounded to two decimal places: when the median is finite, a multiple
  of 1/100 at most 1/200 away from it; and the label of the category the classifier
  gives for the median. Composing the result adds no failure: the request succeeds
  whenever the pitch analysis does, and fails with the error of the pitch analysis
  otherwise.
\<close>

theorem analyze_result:
  "(analyze yin y sr g t = Inr r \<longrightarrow>
      (\<exists>avg. analyze_pitch yin y sr = Inr (avg, json_pitch_series r)
         \<and> json_pitch_series r = voiced (yin y 50 1000 sr)
         \<and> avg = np_median (json_pitch_series r)
         \<and> ((\<forall>x \<in> set (json_pitch_series r). is_binary64 x) \<longrightarrow>
              avg = median_binary64 (json_pitch_series r))
         \<and> json_average_pitch r = py_round2 avg
         \<and> (\<forall>m. avg = Fin m \<longrightarrow>
              (\<exists>k. json_average_pitch r = Fin (of_int k / 100)
                 \<and> \<bar>of_int k / 100 - m\<bar> \<le> 1 / 200))
         \<and> json_voice_type r = VoiceType_value (classify_voice avg g)))
   \<and> (analyze_pitch yin y sr = Inr (avg', series) \<longrightarrow> (\<exists>r'. analyze yin y sr g t = Inr r'))
   \<and> (analyze_pitch yin y sr = Inl e \<longrightarrow> analyze yin y sr g t = Inl e)"
proof -
  have 1: "\<exists>avg. analyze_pitch yin y sr = Inr (avg, json_pitch_series r)
         \<and> json_pitch_series r = voiced (yin y 50 1000 sr)
         \<and> avg = np_median (json_pitch_series r)
         \<and> ((\<forall>x \<in> set (json_pitch_series r). is_binary64 x) \<longrightarrow>
              avg = median_binary64 (json_pitch_series r))
         \<and> json_average_pitch r = py_round2 avg
         \<and> (\<forall>m. avg = Fin m \<longrightarrow>
              (\<exists>k. json_average_pitch r = Fin (of_int k / 100)
                 \<and> \<bar>of_int k / 100 - m\<bar> \<le> 1 / 200))
         \<and> json_voice_type r = VoiceType_value (classify_voice avg g)"
    if ok: "analyze yin y sr g t = Inr r"
  proof -
    from analyze_success [OF ok] obtain avg series
      where ap: "analyze_pitch yin y sr = Inr (avg, series)" by blast
    from analyze_pitch_Inr [OF ap]
    have s: "series = voiced (yin y 50 1000 sr)" "series \<noteq> []" "avg = np_median series"
      by blast+
    have r: "r = \<lparr>json_status = ''success'',
                  json_voice_type = VoiceType_value (classify_voice avg g),
                  json_average_pitch = py_round2 avg,
                  json_pitch_series = series,
                  json_processing_time = t\<rparr>"
      using ok analyze_Inr [OF ap, of g t] by simp
    have b: "avg = median_binary64 series" if "\<forall>x \<in> set series. is_binary64 x"
      using np_median_binary64 [OF that s(2)] s(3) by simp
    have k: "\<exists>k. py_round2 avg = Fin (of_int k / 100) \<and> \<bar>of_int k / 100 - m\<bar> \<le> 1 / 200"
      if "avg = Fin m" for m
      using py_round2_Fin [of m] that by simp
    show ?thesis
      using ap s(1) s(3) b k by (intro exI [of _ avg]) (simp add: r)
  qed
  have 2: "\<exists>r'. analyze yin y sr g t = Inr r'" if "analyze_pitch yin y sr = Inr (avg', series)"
    using analyze_Inr [OF that] by blast
  show ?thesis using 1 2 analyze_Inl by blast
qed

theorem analyze_result_witness:
  "analyze (\<lambda>_ _ _ _. [Fin (885 / 4), Fin (441 / 2)]) [Fin 0] 1 ''male'' ''0:00:01''
     = Inr \<lparr>json_status = ''success'', json_voice_type = ''Tenor'',
            json_average_pitch = Fin (5522 / 25),
            json_pitch_series = [885 / 4, 441 / 2],
            json_processing_time = ''0:00:01''\<rparr>
   \<and> analyze_pitch (\<lambda>_ _ _ _. [Fin (885 / 4), Fin (441 / 2)]) [Fin 0] 1
       = Inr (Fin (1767 / 8), [885 / 4, 441 / 2])
   \<and> list_all is_binary64 [885 / 4, 441 / 2]
   \<and> median_binary64 [885 / 4, 441 / 2] = Fin (1767 / 8)
   \<and> analyze_pitch (\<lambda>_ _ _ _. [Fin (885 / 4), Fin (441 / 2)]) [] 44100 = Inl InsufficientAudio
   \<and> analyze (\<lambda>_ _ _ _. [Fin (885 / 4), Fin (441 / 2)]) [] 44100 ''male'' ''0:00:01''
       = Inl InsufficientAudio"
proof -
  let ?yin = "\<lambda>(_::pyfloat list) (_::nat) (_::nat) (_::int). [Fin (885 / 4), Fin (441 / 2)]"
  let ?r = "\<lparr>json_status = ''success'', json_voice_type = ''Tenor'',
             json_average_pitch = Fin (5522 / 25),
             json_pitch_series = [885 / 4, 441 / 2],
             json_processing_time = ''0:00:01''\<rparr>"
  have ap: "analyze_pitch ?yin [Fin 0] 1 = Inr (Fin (1767 / 8), [885 / 4, 441 / 2])"
    by (simp add: analyze_pitch_def voiced_def np_median_def mean_def fl_simps)
  have a: "analyze ?yin [Fin 0] 1 ''male'' ''0:00:01'' = Inr ?r"
    by (simp add: analyze_def ap py_round2_def round_half_even_def classify_voice_def
        lower_literals Let_def)
  have b: "is_binary64 (885 / 4)" "is_binary64 (441 / 2)"
    by (simp_all add: is_binary64_def fl_simps)
  have e: "analyze_pitch ?yin [] 44100 = Inl InsufficientAudio"
    by (simp add: analyze_pitch_def)
  show ?thesis
    using a e ap b
      analyze_result [of ?yin "[Fin 0]" 1 "''male''" "''0:00:01''" ?r
        "Fin (1767 / 8)" "[885 / 4, 441 / 2]"]
      analyze_result [of ?yin "[]" 44100 "''male''" "''0:00:01''" _ _ _ InsufficientAudio]
    by (simp add: voiced_def np_median_def mean_def median_binary64_def favg_def fl_simps)
qed

text \<open>
  C8 as stated fails: the label returned for 200 Hz and \<^verbatim>\<open>female\<close> is \<^verbatim>\<open>Kontralto\<close>, which
  is not one of the eight English names.
\<close>

theorem label_not_english_name:
  "VoiceType_value (classify_voice (Fin 200) ''female'') = ''Kontralto''
   \<and> ''Kontralto'' \<notin> {''Soprano'', ''Mezzo-soprano'', ''Contralto'', ''Counter-tenor'',
                        ''Tenor'', ''Baritone'', ''Bass'', ''Unknown''}"
  by (simp add: classify_voice_def lower_literals)

text \<open>
  C8, amended. The label returned to the caller is the display name of one of the eight
  members of \<^verbatim>\<open>VoiceType\<close>, so it is one of the fixed closed set Soprano,
  Mezzo-soprano, Kontralto, Tiz Erkek (Countertenor), Tenor, Bariton, Bas, Belirsiz: the
  label of every classification outcome is in this set, so is the label of every
  successful request, and every one of the eight is the label of some category.
\<close>

theorem label_closed_set:
  "VoiceType_value (classify_voice p g)
     \<in> {''Soprano'', ''Mezzo-soprano'', ''Kontralto'', ''Tiz Erkek (Countertenor)'',
        ''Tenor'', ''Bariton'', ''Bas'', ''Belirsiz''}
   \<and> (analyze yin y sr g t = Inr r \<longrightarrow>
        json_voice_type r
          \<in> {''Soprano'', ''Mezzo-soprano'', ''Kontralto'', ''Tiz Erkek (Countertenor)'',
             ''Tenor'', ''Bariton'', ''Bas'', ''Belirsiz''})
   \<and> range VoiceType_value
        = {''Soprano'', ''Mezzo-soprano'', ''Kontralto'', ''Tiz Erkek (Countertenor)'',
           ''Tenor'', ''Bariton'', ''Bas'', ''Belirsiz''}"
proof -
  let ?L = "{''Soprano'', ''Mezzo-soprano'', ''Kontralto'', ''Tiz Erkek (Countertenor)'',
             ''Tenor'', ''Bariton'', ''Bas'', ''Belirsiz''}"
  have v: "VoiceType_value v \<in> ?L" for v
    by (cases v) simp_all
  have 2: "json_voice_type r \<in> ?L" if ok: "analyze yin y sr g t = Inr r"
  proof -
    from analyze_success [OF ok] obtain avg series
      where ap: "analyze_pitch yin y sr = Inr (avg, series)" by blast
    have "json_voice_type r = VoiceType_value (classify_voice avg g)"
      using ok analyze_Inr [OF ap, of g t] by auto
    then show ?thesis using v by simp
  qed
  have "?L \<subseteq> range VoiceType_value"
  proof -
    have "VoiceType_value SOPRANO \<in> range VoiceType_value"
      "VoiceType_value MEZZO_SOPRANO \<in> range VoiceType_value"
      "VoiceType_value CONTRALTO \<in> range VoiceType_value"
      "VoiceType_value COUNTER_TENOR \<in> range VoiceType_value"
      "VoiceType_value TENOR \<in> range VoiceType_value"
      "VoiceType_value BARITONE \<in> range VoiceType_value"
      "VoiceType_value BASS \<in> range VoiceType_value"
      "VoiceType_value UNKNOWN \<in> range VoiceType_value"
      by (rule rangeI)+
    then show ?thesis by simp
  qed
  moreover have "range VoiceType_value \<subseteq> ?L" using v by blast
  ultimately have 3: "range VoiceType_value = ?L" by (rule subset_antisym [rotated])
  show ?thesis using v 2 3 by blast
qed

theorem label_closed_set_witness:
  "analyze (\<lambda>_ _ _ _. [Fin 200]) [Fin 0] 1 ''female'' ''0:00:01''
     = Inr \<lparr>json_status = ''success'', json_voice_type = ''Kontralto'',
            json_average_pitch = Fin 200, json_pitch_series = [200],
            json_processing_time = ''0:00:01''\<rparr>
   \<and> ''Kontralto'' \<in> {''Soprano'', ''Mezzo-soprano'', ''Kontralto'', ''Tiz Erkek (Countertenor)'',
                        ''Tenor'', ''Bariton'', ''Bas'', ''Belirsiz''}"
proof -
  let ?r = "\<lparr>json_status = ''success'', json_voice_type = ''Kontralto'',
             json_average_pitch = Fin 200, json_pitch_series = [200],
             json_processing_time = ''0:00:01''\<rparr>"
  have a: "analyze (\<lambda>_ _ _ _. [Fin 200]) [Fin 0] 1 ''female'' ''0:00:01'' = Inr ?r"
    by (simp add: analyze_def analyze_pitch_def voiced_def np_median_def mean_def fl_simps
        py_round2_def classify_voice_def lower_literals)
  show ?thesis
    using a label_closed_set [of "Fin 200" "''female''" "\<lambda>_ _ _ _. [Fin 200]" "[Fin 0]" 1
        "''0:00:01''" ?r]
    by simp
qed

text \<open>
  C10. In a successful request the category is the one the classifier gives for the
  median itself, and the reported pitch is that median rounded to two decimals. So the
  two can disagree at a band bound: a single voiced frame of 449.996 Hz with \<^verbatim>\<open>female\<close>
  is reported as 450, which the table puts in Soprano, with the category
  Mezzo-soprano of the unrounded value.
\<close>

theorem category_from_unrounded_pitch:
  "(analyze yin y sr g t = Inr r \<longrightarrow>
      (\<exists>avg series. analyze_pitch yin y sr = Inr (avg, series)
         \<and> json_voice_type r = VoiceType_value (classify_voice avg g)
         \<and> json_average_pitch r = py_round2 avg))
   \<and> analyze (\<lambda>_ _ _ _. [Fin (449996 / 1000)]) [Fin 0] 1 ''female'' t
       = Inr \<lparr>json_status = ''success'',
              json_voice_type = VoiceType_value MEZZO_SOPRANO,
              json_average_pitch = Fin 450,
              json_pitch_series = [449996 / 1000],
              json_processing_time = t\<rparr>
   \<and> classify_voice (Fin (449996 / 1000)) ''female'' = MEZZO_SOPRANO
   \<and> classify_voice (Fin 450) ''female'' = SOPRANO"
proof -
  have 1: "\<exists>avg series. analyze_pitch yin y sr = Inr (avg, series)
         \<and> json_voice_type r = VoiceType_value (classify_voice avg g)
         \<and> json_average_pitch r = py_round2 avg"
    if ok: "analyze yin y sr g t = Inr r"
  proof -
    from analyze_success [OF ok] obtain avg series
      where ap: "analyze_pitch yin y sr = Inr (avg, series)" by blast
    show ?thesis
      using ok ap analyze_Inr [OF ap, of g t] by auto
  qed
  have 2: "analyze (\<lambda>_ _ _ _. [Fin (449996 / 1000)]) [Fin 0] 1 ''female'' t
       = Inr \<lparr>json_status = ''success'',
              json_voice_type = VoiceType_value MEZZO_SOPRANO,
              json_average_pitch = Fin 450,
              json_pitch_series = [449996 / 1000],
              json_processing_time = t\<rparr>"
    by (simp add: analyze_def analyze_pitch_def voiced_def np_median_def mean_def fl_simps
        py_round2_def classify_voice_def lower_literals)
  have 3: "classify_voice (Fin (449996 / 1000)) ''female'' = MEZZO_SOPRANO"
    "classify_voice (Fin 450) ''female'' = SOPRANO"
    by (simp_all add: classify_voice_def lower_literals)
  show ?thesis using 1 2 3 by blast
qed

theorem category_from_unrounded_pitch_witness:
  "analyze (\<lambda>_ _ _ _. [NaN, Fin (27499 / 250)]) [Fin 0] 1 ''male'' ''0:00:02''
     = Inr \<lparr>json_status = ''success'', json_voice_type = ''Bas'',
            json_average_pitch = Fin 110,
            json_pitch_series = [27499 / 250],
            json_processing_time = ''0:00:02''\<rparr>
   \<and> classify_voice (Fin 110) ''male'' = BARITONE"
proof -
  let ?yin = "\<lambda>(_::pyfloat list) (_::nat) (_::nat) (_::int). [NaN, Fin (27499 / 250)]"
  let ?r = "\<lparr>json_status = ''success'', json_voice_type = ''Bas'',
            json_average_pitch = Fin 110,
            json_pitch_series = [27499 / 250],
            json_processing_time = ''0:00:02''\<rparr>"
  have a: "analyze ?yin [Fin 0] 1 ''male'' ''0:00:02'' = Inr ?r"
    by (simp add: analyze_def analyze_pitch_def voiced_def np_median_def mean_def fl_simps
        py_round2_def classify_voice_def lower_literals)
  have c: "classify_voice (Fin 110) ''male'' = BARITONE"
    by (simp add: classify_voice_def lower_literals)
  show ?thesis
    using a c category_from_unrounded_pitch [of ?yin "[Fin 0]" 1 "''male''" "''0:00:02''" ?r]
    by simp
qed

end
